theory Spec2Isabelle
  imports Main "HOL-Library.Sublist" "HOL-Library.AList"
begin

section \<open>Python values used by the scraper\<close>

text \<open>
  Exceptions are values. The class decides which \<open>except\<close> clause catches an exception,
  the message is what \<open>str(e)\<close> prints. \<open>LibraryError\<close> stands for the exception classes of
  the collaborating libraries (lxml's XPath and parser errors, the errors of requests); all of
  them derive from \<open>Exception\<close>, as do the built-in classes listed here.
\<close>

datatype exn_class =
  ValueError | ReferenceError | NameError | TypeError | IndexError | OverflowError
  | ConfigurationError | LibraryError

datatype exn = Exn (exn_kind: exn_class) (exn_msg: string)

text \<open>
  What a call writes to the logger, and what it does to transport resources, is returned as
  a list of events in the order in which they happen.
\<close>

datatype event =
    LogError string
  | LogInfo string
  | Slept int
  | SessionOpened
  | SessionClosed
  | ResponseClosed

section \<open>The parsed tree\<close>

text \<open>
  An lxml element: tag, attributes, the text before the first child, the children, and the
  tail (the text that follows the element inside its parent). Strings hold one \<open>char\<close> per
  character. Comments and processing instructions are not part of the model.
\<close>

datatype lxml_element =
  Element (el_tag: string) (el_attrib: "(string \<times> string) list")
          (el_text: "string option") (el_children: "lxml_element list")
          (el_tail: "string option")

text \<open>\<open>element.get(name)\<close>: the value of the attribute, or \<open>None\<close>.\<close>

definition el_get :: "lxml_element \<Rightarrow> string \<Rightarrow> string option" where
  "el_get e name = map_of (el_attrib e) name"

text \<open>\<open>len(element)\<close> counts the children; an element is truthy when it has a child.\<close>

definition el_len :: "lxml_element \<Rightarrow> nat" where
  "el_len e = length (el_children e)"

definition opt_text :: "string option \<Rightarrow> string list" where
  "opt_text t = (case t of None \<Rightarrow> [] | Some s \<Rightarrow> [s])"

text \<open>
  \<open>element.itertext()\<close>: the element's text, then for each child its own \<open>itertext()\<close>
  followed by its tail. The tail of the element the iteration starts at is left out.
\<close>

fun itertext :: "lxml_element \<Rightarrow> string list" where
  "itertext (Element t a tx cs ta) =
     opt_text tx @ concat (map (\<lambda>c. itertext c @ opt_text (el_tail c)) cs)"

text \<open>
  The value of an XPath evaluation: a list of items (elements, or the strings that text and
  attribute steps give), a string, a number or a boolean. Of a number the code only observes
  whether it is zero.
\<close>

datatype xitem = XElement lxml_element | XText string

datatype xvalue = XList "xitem list" | XString string | XNumber (nonzero: bool) | XBool bool

definition truthy :: "xvalue \<Rightarrow> bool" where
  "truthy v = (case v of XList xs \<Rightarrow> xs \<noteq> [] | XString s \<Rightarrow> s \<noteq> []
                | XNumber nz \<Rightarrow> nz | XBool b \<Rightarrow> b)"

text \<open>\<open>for x in v\<close>: the items to iterate over, or the TypeError of a value that has none.\<close>

definition iterate :: "xvalue \<Rightarrow> exn + xitem list" where
  "iterate v = (case v of
       XList xs \<Rightarrow> Inr xs
     | XString s \<Rightarrow> Inr (map (\<lambda>c. XText [c]) s)
     | XNumber _ \<Rightarrow> Inl (Exn TypeError '''float' object is not iterable'')
     | XBool _ \<Rightarrow> Inl (Exn TypeError '''bool' object is not iterable''))"

text \<open>\<open>v[0]\<close>.\<close>

definition subscript0 :: "xvalue \<Rightarrow> exn + xitem" where
  "subscript0 v = (case v of
       XList [] \<Rightarrow> Inl (Exn IndexError ''list index out of range'')
     | XList (x # _) \<Rightarrow> Inr x
     | XString [] \<Rightarrow> Inl (Exn IndexError ''string index out of range'')
     | XString (c # _) \<Rightarrow> Inr (XText [c])
     | XNumber _ \<Rightarrow> Inl (Exn TypeError '''float' object is not subscriptable'')
     | XBool _ \<Rightarrow> Inl (Exn TypeError '''bool' object is not subscriptable''))"

text \<open>
  The two collaborators of the element layer are parameters of every operation that calls
  them: the selector translation \<open>selector_mode_values(by_mode, to_search, tag)\<close>, which gives
  an error label and an XPath string or raises, and the XPath engine \<open>element.xpath(query)\<close>,
  which gives a value or raises.
\<close>

type_synonym 'm translator = "'m \<Rightarrow> string \<Rightarrow> string \<Rightarrow> exn + (string \<times> string)"

type_synonym engine = "lxml_element \<Rightarrow> string \<Rightarrow> exn + xvalue"

section \<open>Python string operations\<close>

text \<open>\<open>s.find(sub)\<close>: the index of the first occurrence of \<open>sub\<close> in \<open>s\<close>.\<close>

fun py_find :: "string \<Rightarrow> string \<Rightarrow> nat option" where
  "py_find sub [] = (if sub = [] then Some 0 else None)"
| "py_find sub (c # cs) =
     (if prefix sub (c # cs) then Some 0 else map_option Suc (py_find sub cs))"

text \<open>
  \<open>s.replace(old, new)\<close> for a non-empty \<open>old\<close>: the occurrences are found from left to right,
  each search starting behind the occurrence replaced before.
\<close>

function py_replace_ne :: "string \<Rightarrow> string \<Rightarrow> string \<Rightarrow> string" where
  "py_replace_ne old new s =
     (if old = [] then s
      else case py_find old s of
             None \<Rightarrow> s
           | Some j \<Rightarrow> take j s @ new @ py_replace_ne old new (drop (j + length old) s))"
  by pat_completeness auto
termination
proof (relation "measure (\<lambda>(old, new, s). length s)")
  show "wf (measure (\<lambda>(old, new, s). length s))" by simp
next
  fix old new :: string and s :: string and j :: nat
  assume ne: "old \<noteq> []" and f: "py_find old s = Some j"
  have bound: "py_find old t = Some k \<Longrightarrow> k + length old \<le> length t" for t k
  proof (induction t arbitrary: k)
    case Nil
    then show ?case by (simp split: if_splits)
  next
    case (Cons c cs)
    show ?case
    proof (cases "prefix old (c # cs)")
      case True
      with Cons.prems have "k = 0" by simp
      with prefix_length_le [OF True] show ?thesis by simp
    next
      case False
      with Cons.prems obtain i where "py_find old cs = Some i" and "k = Suc i"
        by auto
      with Cons.IH [of i] show ?thesis by simp
    qed
  qed
  from bound [OF f] ne have "0 < length s" by (cases s) auto
  moreover from ne have "0 < j + length old" by simp
  ultimately show "((old, new, drop (j + length old) s), (old, new, s))
      \<in> measure (\<lambda>(old, new, s). length s)"
    by simp
qed

declare py_replace_ne.simps [simp del]

text \<open>
  \<open>s.replace(old, new)\<close>. With an empty \<open>old\<close>, Python puts \<open>new\<close> in front of every character
  and at the end.
\<close>

definition py_replace :: "string \<Rightarrow> string \<Rightarrow> string \<Rightarrow> string" where
  "py_replace old new s =
     (if old = [] then new @ concat (map (\<lambda>c. c # new) s) else py_replace_ne old new s)"

text \<open>\<open>c.isspace()\<close> for the characters below 256.\<close>

definition py_isspace :: "char \<Rightarrow> bool" where
  "py_isspace c = (c \<in> set [CHR 0x09, CHR 0x0A, CHR 0x0B, CHR 0x0C, CHR 0x0D,
                             CHR 0x1C, CHR 0x1D, CHR 0x1E, CHR 0x1F, CHR 0x20,
                             CHR 0x85, CHR 0xA0])"

text \<open>\<open>s.strip()\<close>.\<close>

definition py_strip :: "string \<Rightarrow> string" where
  "py_strip s = rev (dropWhile py_isspace (rev (dropWhile py_isspace s)))"

section \<open>NthScraperElement\<close>

datatype NthScraperElement = Handle (element: lxml_element)

text \<open>The constructor accepts an lxml element and nothing else.\<close>

definition NthScraperElement_init :: "xitem \<Rightarrow> exn + NthScraperElement" where
  "NthScraperElement_init x = (case x of
       XElement e \<Rightarrow> Inr (Handle e)
     | XText _ \<Rightarrow> Inl (Exn ValueError ''Expected an lxml.etree._Element instance.''))"

text \<open>The list comprehension \<open>[NthScraperElement(element) for element in elements]\<close>.\<close>

fun wrap_each :: "xitem list \<Rightarrow> exn + NthScraperElement list" where
  "wrap_each [] = Inr []"
| "wrap_each (x # xs) =
     (case NthScraperElement_init x of
        Inl e \<Rightarrow> Inl e
      | Inr h \<Rightarrow> (case wrap_each xs of Inl e \<Rightarrow> Inl e | Inr hs \<Rightarrow> Inr (h # hs)))"

text \<open>
  \<open>[NthScraperElement(element) for element in elements] if elements else []\<close>.
\<close>

definition wrap_found :: "xvalue \<Rightarrow> exn + NthScraperElement list" where
  "wrap_found v =
     (if truthy v
      then (case iterate v of Inl e \<Rightarrow> Inl e | Inr xs \<Rightarrow> wrap_each xs)
      else Inr [])"

text \<open>
  \<open>NthScraperElement.find_elements\<close>. The body of the \<open>try\<close> is the query and the wrapping of
  its result. The handler is \<open>except Exception:\<close> without a name, and the message it formats
  reads the name \<open>e\<close>, which nothing binds: the handler raises NameError before the logger is
  called.
\<close>

definition NthScraperElement_find_elements ::
  "'m translator \<Rightarrow> engine \<Rightarrow> NthScraperElement \<Rightarrow> 'm \<Rightarrow> string \<Rightarrow> string
     \<Rightarrow> (exn + NthScraperElement list) \<times> event list" where
  "NthScraperElement_find_elements smv xp self by_mode to_search tag =
     (case smv by_mode to_search tag of
        Inl e \<Rightarrow> (Inl e, [])
      | Inr (err_message, xpath) \<Rightarrow>
          (case (case xp (element self) xpath of Inl e \<Rightarrow> Inl e | Inr v \<Rightarrow> wrap_found v) of
             Inr hs \<Rightarrow> (Inr hs, [])
           | Inl _ \<Rightarrow> (Inl (Exn NameError ''name 'e' is not defined''), [])))"

text \<open>
  \<open>NthScraperElement.find_element\<close>. The \<open>try\<close> covers the query and the subscript; the handle
  is built after it. The translation is called with the default tag \<open>node()\<close>.
\<close>

definition NthScraperElement_find_element ::
  "'m translator \<Rightarrow> engine \<Rightarrow> NthScraperElement \<Rightarrow> 'm \<Rightarrow> string \<Rightarrow> exn + NthScraperElement" where
  "NthScraperElement_find_element smv xp self by_mode to_search =
     (case smv by_mode to_search ''node()'' of
        Inl e \<Rightarrow> Inl e
      | Inr (_, xpath) \<Rightarrow>
          (case (case xp (element self) xpath of Inl e \<Rightarrow> Inl e | Inr v \<Rightarrow> subscript0 v) of
             Inl _ \<Rightarrow> Inl (Exn ValueError ''Failed to find element.'')
           | Inr x \<Rightarrow> NthScraperElement_init x))"

text \<open>\<open>NthScraperElement.get_text\<close>.\<close>

definition get_text :: "NthScraperElement \<Rightarrow> bool \<Rightarrow> string" where
  "get_text self all_text_content =
     (if all_text_content then concat (itertext (element self))
      else (case el_text (element self) of Some t \<Rightarrow> t | None \<Rightarrow> []))"

definition get_tag_name :: "NthScraperElement \<Rightarrow> string" where
  "get_tag_name self = el_tag (element self)"

text \<open>The loop \<open>for rep in inner_text_filter: text = text.replace(rep, "")\<close>.\<close>

fun apply_filters :: "string \<Rightarrow> string list \<Rightarrow> string" where
  "apply_filters txt [] = txt"
| "apply_filters txt (rep # reps) = apply_filters (py_replace rep [] txt) reps"

definition default_inner_text_filter :: "string list" where
  "default_inner_text_filter = [[CHR 0x0A], [CHR 0x09]]"

text \<open>
  \<open>NthScraperElement.get_attribute\<close>. The serialisation of the subtree is the parser
  library's \<open>tostring\<close>, a parameter.
\<close>

definition get_attribute ::
  "(lxml_element \<Rightarrow> string) \<Rightarrow> NthScraperElement \<Rightarrow> string \<Rightarrow> string list \<Rightarrow> exn + string" where
  "get_attribute tostring self attribute inner_text_filter =
     (if attribute = ''innerText''
      then Inr (py_strip (apply_filters (get_text self True) inner_text_filter))
      else if attribute = ''innerHTML''
      then Inr (tostring (element self))
      else (case el_get (element self) attribute of
              None \<Rightarrow> Inl (Exn ValueError (''Error accessing the attribute '' @ attribute))
            | Some attr_value \<Rightarrow> Inr attr_value))"

section \<open>RequestsWrapper\<close>

record Response =
  status_code :: int
  resp_headers :: "(string \<times> string) list"
  content :: string
  closed :: bool

text \<open>
  \<open>web_hit_count\<close> is a class attribute with the value 0. \<open>self.web_hit_count += 1\<close> reads the
  attribute through the instance (the instance's own value when it has one, the class's
  otherwise) and stores the sum on the instance. The record holds the instance's attribute.
\<close>

definition class_web_hit_count :: int where
  "class_web_hit_count = 0"

record RequestsWrapper =
  web_hit_count :: "int option"

definition RequestsWrapper_init :: RequestsWrapper where
  "RequestsWrapper_init = \<lparr>web_hit_count = None\<rparr>"

definition get_hit_count :: "RequestsWrapper \<Rightarrow> int" where
  "get_hit_count self = (case web_hit_count self of Some n \<Rightarrow> n | None \<Rightarrow> class_web_hit_count)"

definition default_headers :: "(string \<times> string) list" where
  "default_headers = [(''User-Agent'',
     ''Mozilla/5.0 (Macintosh; Intel Mac OS X 10_11_5) AppleWebKit/537.36 (KHTML, like Gecko) Chrome/50.0.2661.102 Safari/537.36'')]"

text \<open>\<open>d.update(other)\<close> on dictionaries kept as association lists.\<close>

definition dict_update :: "('k \<times> 'v) list \<Rightarrow> ('k \<times> 'v) list \<Rightarrow> ('k \<times> 'v) list" where
  "dict_update d other = fold (\<lambda>(k, v). AList.update k v) other d"

text \<open>
  The keyword arguments of a request: the two that \<open>request\<close> pops, and the rest, which goes
  to the session unchanged. A keyword argument is any Python object, so the types of the
  objects given as \<open>sleep_seconds\<close> and as \<open>headers\<close> are left open.
\<close>

record ('a, 'h) kwargs =
  kw_sleep_seconds :: "'a option"
  kw_headers :: "'h option"
  kw_rest :: "(string \<times> string) list"

text \<open>
  \<open>self.session.request(method, url, headers=headers, **kwargs)\<close> is a parameter: it gives
  a response or raises.
\<close>

type_synonym transport =
  "string \<Rightarrow> string \<Rightarrow> (string \<times> string) list \<Rightarrow> (string \<times> string) list \<Rightarrow> exn + Response"

text \<open>
  What the library makes of the two objects is a parameter as well.
  \<open>time.sleep(float(sleep_seconds))\<close> returns after the delay or raises, whatever the
  object is: an int or a float out of range, a float that is not a number, an object that
  \<open>float\<close> refuses. \<open>headers.update(x)\<close> on the copy of the default headers gives the
  merged headers or raises.
\<close>

type_synonym 'a sleeper = "'a \<Rightarrow> exn + event list"

type_synonym 'h updater = "(string \<times> string) list \<Rightarrow> 'h \<Rightarrow> exn + (string \<times> string) list"

text \<open>
  \<open>float(n)\<close> for an int: OverflowError when \<open>n\<close> rounds to no finite double. The value is
  kept as it is; the rounding to 53 bits moves no value across the bounds used below.
\<close>

definition py_float :: "int \<Rightarrow> exn + int" where
  "py_float n =
     (if 2 ^ 1024 - 2 ^ 970 \<le> \<bar>n\<bar> then Inl (Exn OverflowError ''int too large to convert to float'')
      else Inr n)"

text \<open>
  \<open>time.sleep(float(sleep_seconds))\<close> for an int. The delay is converted to the time type
  of the platform first, which fails for a delay beyond \<open>limit\<close> seconds in either
  direction; a negative delay is refused after that.
\<close>

definition time_sleep :: "int \<Rightarrow> int sleeper" where
  "time_sleep limit sleep_seconds =
     (case py_float sleep_seconds of
        Inl e \<Rightarrow> Inl e
      | Inr secs \<Rightarrow>
         if limit < \<bar>secs\<bar>
         then Inl (Exn OverflowError ''timestamp too large to convert to C _PyTime_t'')
         else if secs < 0 then Inl (Exn ValueError ''sleep length must be non-negative'')
         else Inr [Slept secs])"

text \<open>The bound where the time type counts nanoseconds in 64 bits.\<close>

definition sleep_limit :: int where
  "sleep_limit = 9223372036"

text \<open>
  \<open>headers.update(x)\<close> for the objects a caller passes as \<open>headers\<close>: a dictionary, or
  \<open>None\<close>, which \<open>update\<close> cannot iterate over.
\<close>

datatype headers_value = HeadersDict "(string \<times> string) list" | HeadersNone

definition headers_update :: "headers_value updater" where
  "headers_update headers x =
     (case x of
        HeadersDict other \<Rightarrow> Inr (dict_update headers other)
      | HeadersNone \<Rightarrow> Inl (Exn TypeError '''NoneType' object is not iterable''))"

text \<open>\<open>resp.raise_for_status()\<close> raises for the status codes from 400 to 599.\<close>

definition raise_for_status :: "Response \<Rightarrow> exn + unit" where
  "raise_for_status resp =
     (if 400 \<le> status_code resp \<and> status_code resp < 600
      then Inl (Exn LibraryError ''HTTPError'') else Inr ())"

text \<open>
  \<open>kwargs.pop("sleep_seconds", random.randrange(1, 4))\<close>, where \<open>randrange\<close> is the value
  that \<open>random.randrange(1, 4)\<close> draws.
\<close>

definition pop_sleep_seconds :: "('a, 'h) kwargs \<Rightarrow> 'a \<Rightarrow> 'a" where
  "pop_sleep_seconds kw randrange =
     (case kw_sleep_seconds kw of Some s \<Rightarrow> s | None \<Rightarrow> randrange)"

text \<open>
  \<open>headers = self.headers.copy()\<close> and \<open>headers.update(kwargs.pop("headers", {}))\<close>.
  Without the keyword the default is the empty dictionary, which \<open>update\<close> accepts.
\<close>

definition merge_headers :: "'h updater \<Rightarrow> ('a, 'h) kwargs \<Rightarrow> exn + (string \<times> string) list" where
  "merge_headers update kw =
     (case kw_headers kw of
        None \<Rightarrow> Inr (dict_update default_headers [])
      | Some x \<Rightarrow> update default_headers x)"

text \<open>
  \<open>RequestsWrapper.request\<close>. The delay and the merge of the headers come before the
  counter, and an exception of either ends the call there.
\<close>

definition request ::
  "transport \<Rightarrow> 'a sleeper \<Rightarrow> 'h updater \<Rightarrow> 'a \<Rightarrow> RequestsWrapper \<Rightarrow> string \<Rightarrow> string
     \<Rightarrow> ('a, 'h) kwargs \<Rightarrow> (exn + Response) \<times> RequestsWrapper \<times> event list" where
  "request send sleep update randrange self method url kw =
     (let sleep_seconds = pop_sleep_seconds kw randrange
      in case sleep sleep_seconds of
           Inl e \<Rightarrow> (Inl e, self, [])
         | Inr ev \<Rightarrow>
            (case merge_headers update kw of
               Inl e \<Rightarrow> (Inl e, self, ev)
             | Inr headers \<Rightarrow>
                (let self' = self\<lparr>web_hit_count := Some (get_hit_count self + 1)\<rparr>
                 in case send method url headers (kw_rest kw) of
                      Inl e \<Rightarrow> (Inl e, self', ev)
                    | Inr resp \<Rightarrow>
                       (case raise_for_status resp of
                          Inl e \<Rightarrow> (Inl e, self', ev)
                        | Inr _ \<Rightarrow> (Inr resp, self', ev)))))"

definition RequestsWrapper_get ::
  "transport \<Rightarrow> 'a sleeper \<Rightarrow> 'h updater \<Rightarrow> 'a \<Rightarrow> RequestsWrapper \<Rightarrow> string
     \<Rightarrow> ('a, 'h) kwargs \<Rightarrow> (exn + Response) \<times> RequestsWrapper \<times> event list" where
  "RequestsWrapper_get send sleep update randrange self url kw =
     request send sleep update randrange self ''GET'' url kw"

definition RequestsWrapper_post ::
  "transport \<Rightarrow> 'a sleeper \<Rightarrow> 'h updater \<Rightarrow> 'a \<Rightarrow> RequestsWrapper \<Rightarrow> string
     \<Rightarrow> ('a, 'h) kwargs \<Rightarrow> (exn + Response) \<times> RequestsWrapper \<times> event list" where
  "RequestsWrapper_post send sleep update randrange self url kw =
     request send sleep update randrange self ''POST'' url kw"

text \<open>\<open>RequestsWrapper.__exit__\<close> closes the wrapper's session, whatever ended the block.\<close>

definition RequestsWrapper_exit :: "RequestsWrapper \<Rightarrow> event list" where
  "RequestsWrapper_exit self = [SessionClosed]"

text \<open>
  One call of the wrapper as its caller makes it, with what the surroundings answer to it:
  the method, the URL, the keyword arguments, the draw of \<open>random.randrange\<close>, and the
  transport at the time of the call.
\<close>

record ('a, 'h) wcall =
  c_method :: string
  c_url :: string
  c_kwargs :: "('a, 'h) kwargs"
  c_randrange :: 'a
  c_send :: transport

text \<open>
  A call reaches the statement \<open>self.web_hit_count += 1\<close> when neither the delay nor the
  merge of the headers raises.
\<close>

definition reaches_increment :: "'a sleeper \<Rightarrow> 'h updater \<Rightarrow> ('a, 'h) wcall \<Rightarrow> bool" where
  "reaches_increment sleep update c =
     (\<not> isl (sleep (pop_sleep_seconds (c_kwargs c) (c_randrange c)))
      \<and> \<not> isl (merge_headers update (c_kwargs c)))"

text \<open>One call, and a sequence of calls on one wrapper; a call that raises does not stop the caller.\<close>

definition run_call ::
  "'a sleeper \<Rightarrow> 'h updater \<Rightarrow> RequestsWrapper \<Rightarrow> ('a, 'h) wcall
     \<Rightarrow> (exn + Response) \<times> RequestsWrapper \<times> event list" where
  "run_call sleep update self c =
     request (c_send c) sleep update (c_randrange c) self (c_method c) (c_url c) (c_kwargs c)"

fun run_calls ::
  "'a sleeper \<Rightarrow> 'h updater \<Rightarrow> RequestsWrapper \<Rightarrow> ('a, 'h) wcall list \<Rightarrow> RequestsWrapper" where
  "run_calls sleep update self [] = self"
| "run_calls sleep update self (c # cs) =
     run_calls sleep update (fst (snd (run_call sleep update self c))) cs"

section \<open>NthScraper\<close>

record NthScraper =
  requests_wrapper :: RequestsWrapper
  doc :: "lxml_element option"
  response :: "Response option"

definition NthScraper_init :: NthScraper where
  "NthScraper_init = \<lparr>requests_wrapper = RequestsWrapper_init, doc = None, response = None\<rparr>"

text \<open>
  \<open>NthScraper._get_response\<close>. The parser \<open>html.fromstring\<close> is a parameter; \<open>randint\<close> is the
  value that \<open>random.randint(1, 5)\<close> draws. The response is stored before the body is parsed.
\<close>

definition get_response ::
  "transport \<Rightarrow> 'a sleeper \<Rightarrow> 'h updater \<Rightarrow> (string \<Rightarrow> exn + lxml_element) \<Rightarrow> 'a \<Rightarrow> 'a
     \<Rightarrow> NthScraper \<Rightarrow> string \<Rightarrow> 'a option \<Rightarrow> bool \<Rightarrow> ('a, 'h) kwargs
     \<Rightarrow> (exn + Response) \<times> NthScraper \<times> event list" where
  "get_response send sleep update fromstring randint randrange self url sleep_seconds is_post kw =
     (let sleep_seconds' = (case sleep_seconds of Some s \<Rightarrow> s | None \<Rightarrow> randint);
          kw' = kw\<lparr>kw_sleep_seconds := Some sleep_seconds'\<rparr>;
          called = (if is_post
                    then RequestsWrapper_post send sleep update randrange (requests_wrapper self)
                           url kw'
                    else RequestsWrapper_get send sleep update randrange (requests_wrapper self)
                           url kw');
          self1 = self\<lparr>requests_wrapper := fst (snd called)\<rparr>;
          ev = snd (snd called)
      in case fst called of
           Inl e \<Rightarrow> (Inl e, self1, ev)
         | Inr resp \<Rightarrow>
            (let self2 = self1\<lparr>response := Some resp\<rparr>
             in if content resp \<noteq> []
                then (case fromstring (content resp) of
                        Inl e \<Rightarrow> (Inl e, self2, ev)
                      | Inr d \<Rightarrow> (Inr resp, self2\<lparr>doc := Some d\<rparr>, ev))
                else (Inr resp, self2\<lparr>doc := None\<rparr>, ev)))"

definition NthScraper_get ::
  "transport \<Rightarrow> 'a sleeper \<Rightarrow> 'h updater \<Rightarrow> (string \<Rightarrow> exn + lxml_element) \<Rightarrow> 'a \<Rightarrow> 'a
     \<Rightarrow> NthScraper \<Rightarrow> string \<Rightarrow> 'a option \<Rightarrow> ('a, 'h) kwargs
     \<Rightarrow> (exn + Response) \<times> NthScraper \<times> event list" where
  "NthScraper_get send sleep update fromstring randint randrange self url sleep_seconds kw =
     get_response send sleep update fromstring randint randrange self url sleep_seconds False kw"

definition NthScraper_post ::
  "transport \<Rightarrow> 'a sleeper \<Rightarrow> 'h updater \<Rightarrow> (string \<Rightarrow> exn + lxml_element) \<Rightarrow> 'a \<Rightarrow> 'a
     \<Rightarrow> NthScraper \<Rightarrow> string \<Rightarrow> 'a option \<Rightarrow> ('a, 'h) kwargs
     \<Rightarrow> (exn + Response) \<times> NthScraper \<times> event list" where
  "NthScraper_post send sleep update fromstring randint randrange self url sleep_seconds kw =
     get_response send sleep update fromstring randint randrange self url sleep_seconds True kw"

text \<open>
  \<open>NthScraper.get_from_local\<close>. \<open>adapter\<close> is \<open>session.get\<close> on the session with the local
  file adapter mounted: it gives a response or raises. The statements run in the source's
  order, and an exception ends the call where it is raised.
\<close>

definition get_from_local ::
  "(string \<Rightarrow> exn + Response) \<Rightarrow> (string \<Rightarrow> exn + lxml_element) \<Rightarrow> NthScraper \<Rightarrow> string
     \<Rightarrow> (exn + Response) \<times> NthScraper \<times> event list" where
  "get_from_local adapter fromstring self file_path =
     (case adapter (''file://'' @ file_path) of
        Inl e \<Rightarrow> (Inl e, self, [SessionOpened])
      | Inr resp \<Rightarrow>
         (let self1 = self\<lparr>response := Some resp\<rparr>;
              ev = [SessionOpened, LogInfo (''Scraping data from: '' @ file_path)];
              closed_resp = resp\<lparr>closed := True\<rparr>
          in if content resp \<noteq> []
             then (case fromstring (content resp) of
                     Inl e \<Rightarrow> (Inl e, self1, ev)
                   | Inr d \<Rightarrow> (Inr closed_resp,
                              self1\<lparr>doc := Some d, response := Some closed_resp\<rparr>,
                              ev @ [ResponseClosed]))
             else (Inr closed_resp, self1\<lparr>doc := None, response := Some closed_resp\<rparr>,
                   ev @ [ResponseClosed])))"

text \<open>
  \<open>doc = doc if doc else self.doc\<close>: an element is truthy when it has a child, \<open>None\<close> is
  falsy.
\<close>

definition doc_truthy :: "lxml_element option \<Rightarrow> bool" where
  "doc_truthy d = (case d of None \<Rightarrow> False | Some e \<Rightarrow> el_len e \<noteq> 0)"

definition choose_doc :: "NthScraper \<Rightarrow> lxml_element option \<Rightarrow> lxml_element option" where
  "choose_doc self d = (if doc_truthy d then d else doc self)"

text \<open>\<open>NthScraper.find_elements\<close>.\<close>

definition NthScraper_find_elements ::
  "'m translator \<Rightarrow> engine \<Rightarrow> NthScraper \<Rightarrow> 'm \<Rightarrow> string \<Rightarrow> lxml_element option \<Rightarrow> string
     \<Rightarrow> (exn + NthScraperElement list) \<times> event list" where
  "NthScraper_find_elements smv xp self by_mode to_search doc_arg tag =
     (case smv by_mode to_search tag of
        Inl e \<Rightarrow> (Inl e, [])
      | Inr (err_message, xpath) \<Rightarrow>
         (case choose_doc self doc_arg of
            None \<Rightarrow> (Inr [], [LogError ''Document is not loaded properly for xpath operations.''])
          | Some d \<Rightarrow>
             if el_len d = 0
             then (Inr [], [LogError ''Document is not loaded properly for xpath operations.''])
             else (case (case xp d xpath of Inl e \<Rightarrow> Inl e | Inr v \<Rightarrow> wrap_found v) of
                     Inr hs \<Rightarrow> (Inr hs, [])
                   | Inl e \<Rightarrow> (Inr [], [LogError (err_message @ '': '' @ exn_msg e)]))))"

text \<open>\<open>NthScraper.find_element\<close>. Here the handle is built inside the \<open>try\<close>.\<close>

definition NthScraper_find_element ::
  "'m translator \<Rightarrow> engine \<Rightarrow> NthScraper \<Rightarrow> 'm \<Rightarrow> string \<Rightarrow> lxml_element option \<Rightarrow> string
     \<Rightarrow> exn + NthScraperElement" where
  "NthScraper_find_element smv xp self by_mode to_search doc_arg tag =
     (case smv by_mode to_search tag of
        Inl e \<Rightarrow> Inl e
      | Inr (err_message, xpath) \<Rightarrow>
         (case choose_doc self doc_arg of
            None \<Rightarrow> Inl (Exn ReferenceError ''HTML Document is not a valid lxml object'')
          | Some d \<Rightarrow>
             if el_len d = 0
             then Inl (Exn ReferenceError ''HTML Document is not a valid lxml object'')
             else (case (case (case xp d xpath of Inl e \<Rightarrow> Inl e | Inr v \<Rightarrow> subscript0 v) of
                           Inl e \<Rightarrow> Inl e
                         | Inr x \<Rightarrow> NthScraperElement_init x) of
                     Inl _ \<Rightarrow> Inl (Exn ValueError ''Failed to find Element'')
                   | Inr h \<Rightarrow> Inr h)))"

section \<open>The specification's reading of the text operations\<close>

text \<open>
  The tree as a document: an element's content is a sequence of text nodes and elements.
  The text of an lxml element is the text node in front of its first child, the tail of a
  child is the text node behind it.
\<close>

datatype dom = DText string | DElem string "dom list"

fun dom_of :: "lxml_element \<Rightarrow> dom" where
  "dom_of (Element t a tx cs ta) =
     DElem t (map DText (opt_text tx)
              @ concat (map (\<lambda>c. dom_of c # map DText (opt_text (el_tail c))) cs))"

text \<open>All text of a node and of every descendant, in document order.\<close>

fun texts_in_order :: "dom \<Rightarrow> string list" where
  "texts_in_order (DText s) = [s]"
| "texts_in_order (DElem t kids) = concat (map texts_in_order kids)"

text \<open>
  The text an element's content starts with, when it starts with a text node: what precedes
  the first child element.
\<close>

fun leading_text :: "dom \<Rightarrow> string" where
  "leading_text (DElem t (DText s # kids)) = s"
| "leading_text d = []"

text \<open>
  Removing every occurrence of a filter string from a text, scanning from the left; there
  is nothing to remove for the empty filter.
\<close>

function remove_occurrences :: "string \<Rightarrow> string \<Rightarrow> string" where
  "remove_occurrences f [] = []"
| "remove_occurrences f (c # cs) =
     (if f \<noteq> [] \<and> prefix f (c # cs)
      then remove_occurrences f (drop (length f) (c # cs))
      else c # remove_occurrences f cs)"
  by pat_completeness auto
termination
  by (relation "measure (\<lambda>(f, s). length s)") (auto simp: less_Suc_eq_le neq_Nil_conv)

text \<open>The filters removed one after the other, in the order of the list.\<close>

definition remove_filters :: "string list \<Rightarrow> string \<Rightarrow> string" where
  "remove_filters fs txt = foldl (\<lambda>t f. remove_occurrences f t) txt fs"

section \<open>Collaborators for running the model\<close>

text \<open>
  Modelled from the spec: \<open>nthscraper/by.py\<close> (the enumeration \<open>By\<close> and the function
  \<open>selector_mode_values\<close>) is not among the sources. The modes are those the specification
  lists; \<open>ByOther\<close> stands for a mode outside the supported set, for which the translation
  fails with ConfigurationError. An XPath pattern is passed through unchanged, a tag
  pattern ignores the tag scope. The operations above take the translation as a parameter;
  this one is used to run them on concrete inputs.
\<close>

datatype By = ById | ByClass | ByTag | ByXPath | ByAttribute | ByOther string

text \<open>
  Modelled from the spec: \<open>selector_mode_values\<close> of \<open>nthscraper/by.py\<close>, which is not among
  the sources. It gives the error label and the query for a supported mode, and fails with
  ConfigurationError for any other.
\<close>

fun selector_mode_values :: "By translator" where
  \<open>selector_mode_values ById pat tag =
     Inr (''Error finding element by id'', ''//'' @ tag @ ''[@id="'' @ pat @ ''"]'')\<close>
| \<open>selector_mode_values ByClass pat tag =
     Inr (''Error finding element by class'',
          ''//'' @ tag @ ''[contains(concat(" ", normalize-space(@class), " "), " '' @ pat @ '' ")]'')\<close>
| "selector_mode_values ByTag pat tag =
     Inr (''Error finding element by tag'', ''//'' @ pat)"
| "selector_mode_values ByXPath pat tag =
     Inr (''Error finding element by xpath'', pat)"
| "selector_mode_values ByAttribute pat tag =
     Inr (''Error finding element by attribute'', ''//'' @ tag @ ''[@'' @ pat @ '']'')"
| "selector_mode_values (ByOther m) pat tag =
     Inl (Exn ConfigurationError (''Unsupported selector mode '' @ m))"

text \<open>
  A stand-in for lxml's XPath engine that answers four queries as lxml does (the context
  node, its children, its text nodes, the number of its children) and refuses every other
  one, as lxml refuses a malformed query.
\<close>

definition xpath_stub :: engine where
  "xpath_stub e q =
     (if q = ''.'' then Inr (XList [XElement e])
      else if q = ''*'' then Inr (XList (map XElement (el_children e)))
      else if q = ''text()''
      then Inr (XList (map XText (opt_text (el_text e)
                                  @ concat (map (\<lambda>c. opt_text (el_tail c)) (el_children e)))))
      else if q = ''count(*)'' then Inr (XNumber (el_children e \<noteq> []))
      else Inl (Exn LibraryError ''Invalid expression''))"

text \<open>
  A stand-in for \<open>html.fromstring\<close>: a body of white space only is refused, as lxml refuses
  it (\<open>Document is empty\<close>); any other body becomes a paragraph holding it as text, which is
  what lxml makes of a body without markup.
\<close>

definition fromstring_stub :: "string \<Rightarrow> exn + lxml_element" where
  "fromstring_stub body =
     (if list_all py_isspace body then Inl (Exn LibraryError ''Document is empty'')
      else Inr (Element ''p'' [] (Some body) [] None))"

text \<open>The element for the markup \<open>A<b>B</b>C\<close> inside a paragraph.\<close>

definition abc_element :: lxml_element where
  "abc_element = Element ''p'' [] (Some ''A'') [Element ''b'' [] (Some ''B'') [] (Some ''C'')] None"

text \<open>The text with white space and the two default filters around the letters a and b.\<close>

definition sample_text :: string where
  "sample_text = [CHR 0x20, CHR 0x0A, CHR ''a'', CHR 0x09, CHR ''b'', CHR 0x20, CHR 0x0A]"

definition ok_response :: "string \<Rightarrow> Response" where
  "ok_response body = \<lparr>status_code = 200, resp_headers = [], content = body, closed = False\<rparr>"

definition not_found_response :: Response where
  "not_found_response = \<lparr>status_code = 404, resp_headers = [], content = ''gone'', closed = False\<rparr>"

text \<open>Transports that answer every request alike.\<close>

definition send_ok :: transport where
  "send_ok method url headers rest = Inr (ok_response ''Hi'')"

definition send_not_found :: transport where
  "send_not_found method url headers rest = Inr not_found_response"

definition no_kwargs :: "(int, headers_value) kwargs" where
  "no_kwargs = \<lparr>kw_sleep_seconds = None, kw_headers = None, kw_rest = []\<rparr>"

definition send_empty :: transport where
  "send_empty method url headers rest = Inr (ok_response [])"

text \<open>
  Calls of the wrapper: one that is answered with status 200, one that is answered with
  status 404, one that asks for a negative delay, one that asks for a delay beyond the
  bound of the time type, and one that passes \<open>None\<close> as headers.
\<close>

definition call_ok :: "(int, headers_value) wcall" where
  "call_ok = \<lparr>c_method = ''GET'', c_url = ''http://example.org/'', c_kwargs = no_kwargs,
               c_randrange = 1, c_send = send_ok\<rparr>"

definition call_not_found :: "(int, headers_value) wcall" where
  "call_not_found = \<lparr>c_method = ''POST'', c_url = ''http://example.org/gone'',
                      c_kwargs = no_kwargs, c_randrange = 3, c_send = send_not_found\<rparr>"

definition call_negative_sleep :: "(int, headers_value) wcall" where
  "call_negative_sleep = \<lparr>c_method = ''GET'', c_url = ''http://example.org/'',
                           c_kwargs = no_kwargs\<lparr>kw_sleep_seconds := Some (- 1)\<rparr>,
                           c_randrange = 1, c_send = send_ok\<rparr>"

definition call_long_sleep :: "(int, headers_value) wcall" where
  "call_long_sleep = \<lparr>c_method = ''GET'', c_url = ''http://example.org/'',
                       c_kwargs = no_kwargs\<lparr>kw_sleep_seconds := Some (10 ^ 30)\<rparr>,
                       c_randrange = 1, c_send = send_ok\<rparr>"

definition call_none_headers :: "(int, headers_value) wcall" where
  "call_none_headers = \<lparr>c_method = ''GET'', c_url = ''http://example.org/'',
                         c_kwargs = no_kwargs\<lparr>kw_sleep_seconds := Some 0,
                                              kw_headers := Some HeadersNone\<rparr>,
                         c_randrange = 1, c_send = send_ok\<rparr>"

text \<open>A local file that holds a single blank.\<close>

definition adapter_blank :: "string \<Rightarrow> exn + Response" where
  "adapter_blank url = Inr (ok_response '' '')"

section \<open>Facts about the text operations\<close>

lemma texts_DText: "concat (map (texts_in_order \<circ> DText) xs) = xs"
  by (induction xs) simp_all

lemma texts_dom_of: "texts_in_order (dom_of e) = itertext e"
proof (induction e)
  case (Element t a tx cs ta)
  have kids: "concat (map (\<lambda>c. texts_in_order (dom_of c) @ opt_text (el_tail c)) cs)
      = concat (map (\<lambda>c. itertext c @ opt_text (el_tail c)) cs)"
    using Element.IH by (induction cs) auto
  have "concat (map texts_in_order (concat (map (\<lambda>c. dom_of c # map DText (opt_text (el_tail c))) cs)))
      = concat (map (\<lambda>c. texts_in_order (dom_of c) @ opt_text (el_tail c)) cs)"
    by (induction cs) (simp_all add: texts_DText)
  with kids show ?case by (simp add: texts_DText)
qed

lemma remove_occurrences_empty: "remove_occurrences [] s = s"
  by (induction s) simp_all

lemma py_replace_ne_remove: "old \<noteq> [] \<Longrightarrow> py_replace_ne old [] s = remove_occurrences old s"
proof (induction old s rule: remove_occurrences.induct)
  case (1 f)
  then show ?case by (simp add: py_replace_ne.simps)
next
  case (2 f c cs)
  show ?case
  proof (cases "prefix f (c # cs)")
    case True
    with 2 show ?thesis
      by (subst py_replace_ne.simps) simp
  next
    case False
    with 2 have IH: "py_replace_ne f [] cs = remove_occurrences f cs" by simp
    show ?thesis
    proof (cases "py_find f cs")
      case None
      with False 2(3) IH show ?thesis
        by (subst py_replace_ne.simps, subst (asm) py_replace_ne.simps) simp
    next
      case (Some j)
      with False 2(3) IH show ?thesis
        by (subst py_replace_ne.simps, subst (asm) py_replace_ne.simps) simp
    qed
  qed
qed

lemma py_replace_remove: "py_replace f [] s = remove_occurrences f s"
proof (cases "f = []")
  case True
  have "concat (map (\<lambda>c. [c]) s) = s" by (induction s) simp_all
  with True show ?thesis by (simp add: py_replace_def remove_occurrences_empty)
next
  case False
  then show ?thesis by (simp add: py_replace_def py_replace_ne_remove)
qed

lemma apply_filters_remove: "apply_filters s fs = remove_filters fs s"
  by (induction fs arbitrary: s) (simp_all add: remove_filters_def py_replace_remove)

text \<open>
  The occurrences removed are those of the text as it is scanned: removing \<open>ab\<close> from
  \<open>aabb\<close> leaves \<open>ab\<close>, joined from what stood around the occurrence.
\<close>

lemma py_replace_joined: "py_replace ''ab'' [] ''aabb'' = ''ab''"
  by (simp add: py_replace_remove)

lemma set_remove_occurrences: "set (remove_occurrences f s) \<subseteq> set s"
proof (induction f s rule: remove_occurrences.induct)
  case (1 f)
  then show ?case by simp
next
  case (2 f c cs)
  show ?case
  proof (cases "f \<noteq> [] \<and> prefix f (c # cs)")
    case True
    with 2 have "set (remove_occurrences f (drop (length f) (c # cs))) \<subseteq> set (drop (length f) (c # cs))"
      by simp
    also have "\<dots> \<subseteq> set (c # cs)" by (rule set_drop_subset)
    finally show ?thesis using True by simp
  next
    case False
    with 2 show ?thesis by auto
  qed
qed

lemma remove_single_absent: "c \<notin> set (remove_occurrences [c] s)"
  by (induction s) auto

lemma set_remove_filters: "set (remove_filters fs s) \<subseteq> set s"
proof (induction fs arbitrary: s)
  case Nil
  then show ?case by (simp add: remove_filters_def)
next
  case (Cons f fs)
  have "set (remove_filters (f # fs) s) = set (remove_filters fs (remove_occurrences f s))"
    by (simp add: remove_filters_def)
  also have "\<dots> \<subseteq> set (remove_occurrences f s)" by (rule Cons.IH)
  also have "\<dots> \<subseteq> set s" by (rule set_remove_occurrences)
  finally show ?case .
qed

lemma remove_filters_single_absent: "[c] \<in> set fs \<Longrightarrow> c \<notin> set (remove_filters fs s)"
proof (induction fs arbitrary: s)
  case Nil
  then show ?case by simp
next
  case (Cons f fs)
  have unfold: "remove_filters (f # fs) s = remove_filters fs (remove_occurrences f s)"
    by (simp add: remove_filters_def)
  show ?case
  proof (cases "f = [c]")
    case True
    have "c \<notin> set (remove_occurrences [c] s)" by (rule remove_single_absent)
    with set_remove_filters [of fs "remove_occurrences [c] s"] True unfold
    show ?thesis by auto
  next
    case False
    with Cons.prems have "[c] \<in> set fs" by simp
    from Cons.IH [OF this] unfold show ?thesis by simp
  qed
qed

lemma py_strip_ends:
  assumes ne: "py_strip s \<noteq> []"
  shows "\<not> py_isspace (hd (py_strip s)) \<and> \<not> py_isspace (last (py_strip s))"
proof -
  define l where "l = dropWhile py_isspace s"
  define r where "r = dropWhile py_isspace (rev l)"
  have ps: "py_strip s = rev r" by (simp add: py_strip_def l_def r_def)
  from ne ps have rne: "r \<noteq> []" by simp
  have "\<not> py_isspace (hd r)"
    unfolding r_def using rne [unfolded r_def] by (rule hd_dropWhile)
  with rne have last_ok: "\<not> py_isspace (last (rev r))" by (simp add: last_rev)
  have lne: "l \<noteq> []"
  proof
    assume "l = []"
    with rne show False by (simp add: r_def)
  qed
  have hl: "\<not> py_isspace (hd l)"
    unfolding l_def using lne [unfolded l_def] by (rule hd_dropWhile)
  have "rev l = takeWhile py_isspace (rev l) @ r" by (simp add: r_def)
  then have "l = rev r @ rev (takeWhile py_isspace (rev l))"
    by (metis rev_append rev_rev_ident)
  with rne have "hd l = hd (rev r)" by (metis hd_append2 rev_is_Nil_conv)
  with hl last_ok ps show ?thesis by simp
qed

lemma py_strip_inside:
  "\<exists>a b. s = a @ py_strip s @ b \<and> list_all py_isspace a \<and> list_all py_isspace b"
proof -
  let ?a = "takeWhile py_isspace s"
  let ?l = "dropWhile py_isspace s"
  let ?b = "rev (takeWhile py_isspace (rev ?l))"
  have "rev ?l = takeWhile py_isspace (rev ?l) @ dropWhile py_isspace (rev ?l)"
    by simp
  then have "?l = py_strip s @ ?b"
    unfolding py_strip_def by (metis rev_append rev_rev_ident)
  then have "s = ?a @ py_strip s @ ?b"
    by (metis takeWhile_dropWhile_id)
  moreover have "list_all py_isspace ?a"
    by (simp add: list_all_iff) (metis set_takeWhileD)
  moreover have "list_all py_isspace ?b"
    by (simp add: list_all_iff) (metis set_takeWhileD)
  ultimately show ?thesis by blast
qed

lemma dom_of_DElem: "\<exists>t kids. dom_of e = DElem t kids"
  by (cases e) simp

lemma leading_text_dom_of:
  "leading_text (dom_of e) = (case el_text e of Some t \<Rightarrow> t | None \<Rightarrow> [])"
proof (cases e)
  case (Element t a tx cs ta)
  show ?thesis
  proof (cases tx)
    case None
    show ?thesis
    proof (cases cs)
      case Nil
      with None Element show ?thesis by (simp add: opt_text_def)
    next
      case (Cons c cs')
      obtain t' kids where "dom_of c = DElem t' kids" using dom_of_DElem by blast
      with Cons None Element show ?thesis by (simp add: opt_text_def)
    qed
  next
    case (Some s)
    with Element show ?thesis by (simp add: opt_text_def)
  qed
qed

lemma set_py_strip: "set (py_strip s) \<subseteq> set s"
  by (auto simp: py_strip_def dest!: set_dropWhileD)

section \<open>Text and attributes of an element\<close>

text \<open>
  Claim C7. For every node, \<open>get_text(true)\<close> is the concatenation, without separator, of
  all text of the node and of every descendant in document order, and \<open>get_text(false)\<close>
  is the node's own direct text, the text in front of its first child, and the empty string
  when there is none. On the node for \<open>A<b>B</b>C\<close> the first gives \<open>ABC\<close> and the
  second \<open>A\<close>.
\<close>

theorem get_text_document_order:
  "get_text h True = concat (texts_in_order (dom_of (element h)))
   \<and> get_text h False = leading_text (dom_of (element h))
   \<and> get_text (Handle abc_element) True = ''ABC''
   \<and> get_text (Handle abc_element) False = ''A''"
proof -
  have "get_text h True = concat (texts_in_order (dom_of (element h)))"
    by (simp add: get_text_def texts_dom_of)
  moreover have "get_text h False = leading_text (dom_of (element h))"
    by (simp add: get_text_def leading_text_dom_of)
  moreover have "get_text (Handle abc_element) True = ''ABC''"
    by (simp add: get_text_def abc_element_def opt_text_def)
  moreover have "get_text (Handle abc_element) False = ''A''"
    by (simp add: get_text_def abc_element_def)
  ultimately show ?thesis by simp
qed

text \<open>
  Claim C5. For every node and every attribute name other than \<open>innerText\<close> and
  \<open>innerHTML\<close>, \<open>get_attribute\<close> returns the stored value of an attribute that is present
  and fails with the attribute error (a ValueError naming the attribute) for one that is
  absent; a missing attribute never yields a value.
\<close>

theorem get_attribute_literal:
  assumes "attribute \<noteq> ''innerText''" and "attribute \<noteq> ''innerHTML''"
  shows "((attribute, v) \<in> set (el_attrib (element h)) \<and> distinct (map fst (el_attrib (element h)))
            \<longrightarrow> get_attribute ts h attribute fs = Inr v)
       \<and> (attribute \<notin> fst ` set (el_attrib (element h))
            \<longrightarrow> get_attribute ts h attribute fs
                  = Inl (Exn ValueError (''Error accessing the attribute '' @ attribute)))"
proof (intro conjI impI)
  assume "(attribute, v) \<in> set (el_attrib (element h)) \<and> distinct (map fst (el_attrib (element h)))"
  then have "map_of (el_attrib (element h)) attribute = Some v" by simp
  with assms show "get_attribute ts h attribute fs = Inr v"
    by (simp add: get_attribute_def el_get_def)
next
  assume "attribute \<notin> fst ` set (el_attrib (element h))"
  then have "map_of (el_attrib (element h)) attribute = None" by (simp add: map_of_eq_None_iff)
  with assms show "get_attribute ts h attribute fs
      = Inl (Exn ValueError (''Error accessing the attribute '' @ attribute))"
    by (simp add: get_attribute_def el_get_def)
qed

theorem get_attribute_literal_witness:
  "get_attribute (\<lambda>e. []) (Handle (Element ''p'' [(''id'', ''x'')] None [] None)) ''id'' [] = Inr ''x''
   \<and> get_attribute (\<lambda>e. []) (Handle (Element ''p'' [(''id'', ''x'')] None [] None)) ''class'' []
       = Inl (Exn ValueError ''Error accessing the attribute class'')"
  using get_attribute_literal [of "''id''" "''x''" "Handle (Element ''p'' [(''id'', ''x'')] None [] None)" "\<lambda>e. []" "[]"]
        get_attribute_literal [of "''class''" "''x''" "Handle (Element ''p'' [(''id'', ''x'')] None [] None)" "\<lambda>e. []" "[]"]
  by simp

text \<open>
  Claim C6. For every node and every list of filters, \<open>get_attribute("innerText", filters)\<close>
  is the full text of the node with each filter string removed, one filter after the other
  in the order of the list, and with leading and trailing white space trimmed: the text
  after the removal is the result with nothing but white space in front of it and behind
  it, and the result neither begins nor ends with white space. No character that is a
  filter by itself is left in the result. With the default filters (newline, tab) the text
  blank, newline, a, tab, b, blank, newline gives \<open>ab\<close>.
\<close>

theorem inner_text_filtered_and_trimmed:
  "(\<exists>r a b. get_attribute ts h ''innerText'' fs = Inr r
       \<and> remove_filters fs (get_text h True) = a @ r @ b
       \<and> list_all py_isspace a \<and> list_all py_isspace b
       \<and> (r \<noteq> [] \<longrightarrow> \<not> py_isspace (hd r) \<and> \<not> py_isspace (last r))
       \<and> (\<forall>c. [c] \<in> set fs \<longrightarrow> c \<notin> set r))
   \<and> (get_text h True = sample_text
        \<longrightarrow> get_attribute ts h ''innerText'' default_inner_text_filter = Inr ''ab'')"
proof -
  define s where "s = remove_filters fs (get_text h True)"
  have eq: "get_attribute ts h ''innerText'' fs' = Inr (py_strip (remove_filters fs' (get_text h True)))"
    for fs'
    by (simp add: get_attribute_def apply_filters_remove)
  obtain a b where ab: "s = a @ py_strip s @ b" "list_all py_isspace a" "list_all py_isspace b"
    using py_strip_inside [of s] by blast
  have ends: "py_strip s \<noteq> [] \<longrightarrow> \<not> py_isspace (hd (py_strip s)) \<and> \<not> py_isspace (last (py_strip s))"
    using py_strip_ends [of s] by blast
  have absent: "\<forall>c. [c] \<in> set fs \<longrightarrow> c \<notin> set (py_strip s)"
    using remove_filters_single_absent [of _ fs "get_text h True"] set_py_strip [of s]
    unfolding s_def by blast
  have first: "\<exists>r a b. get_attribute ts h ''innerText'' fs = Inr r
       \<and> remove_filters fs (get_text h True) = a @ r @ b
       \<and> list_all py_isspace a \<and> list_all py_isspace b
       \<and> (r \<noteq> [] \<longrightarrow> \<not> py_isspace (hd r) \<and> \<not> py_isspace (last r))
       \<and> (\<forall>c. [c] \<in> set fs \<longrightarrow> c \<notin> set r)"
    using eq [of fs] ab ends absent unfolding s_def by blast
  have "py_strip (remove_filters default_inner_text_filter sample_text) = ''ab''"
    by (simp add: py_strip_def remove_filters_def default_inner_text_filter_def sample_text_def
          py_isspace_def)
  with eq [of default_inner_text_filter]
  have "get_text h True = sample_text
        \<longrightarrow> get_attribute ts h ''innerText'' default_inner_text_filter = Inr ''ab''"
    by simp
  with first show ?thesis by blast
qed

theorem inner_text_filtered_and_trimmed_witness:
  "get_text (Handle (Element ''p'' [] (Some sample_text) [] None)) True = sample_text
   \<and> [CHR 0x09] \<in> set default_inner_text_filter
   \<and> get_attribute (\<lambda>e. []) (Handle (Element ''p'' [] (Some sample_text) [] None)) ''innerText''
        default_inner_text_filter = Inr ''ab''
   \<and> ''ab'' \<noteq> []
   \<and> \<not> py_isspace (hd ''ab'') \<and> \<not> py_isspace (last ''ab'')
   \<and> CHR 0x09 \<notin> set ''ab''
   \<and> (\<exists>a b. remove_filters default_inner_text_filter sample_text = a @ ''ab'' @ b
          \<and> list_all py_isspace a \<and> list_all py_isspace b)"
proof -
  let ?h = "Handle (Element ''p'' [] (Some sample_text) [] None)"
  have t: "get_text ?h True = sample_text"
    by (simp add: get_text_def opt_text_def)
  have f: "[CHR 0x09] \<in> set default_inner_text_filter"
    by (simp add: default_inner_text_filter_def)
  note inst = inner_text_filtered_and_trimmed [of "\<lambda>e. []" ?h default_inner_text_filter]
  from inst t have v: "get_attribute (\<lambda>e. []) ?h ''innerText'' default_inner_text_filter = Inr ''ab''"
    by blast
  from inst obtain r a b where
    r: "get_attribute (\<lambda>e. []) ?h ''innerText'' default_inner_text_filter = Inr r"
    and parts: "remove_filters default_inner_text_filter (get_text ?h True) = a @ r @ b"
    and ws: "list_all py_isspace a" "list_all py_isspace b"
    and ends: "r \<noteq> [] \<longrightarrow> \<not> py_isspace (hd r) \<and> \<not> py_isspace (last r)"
    and absent: "\<forall>c. [c] \<in> set default_inner_text_filter \<longrightarrow> c \<notin> set r"
    by blast
  from r v have rab: "r = ''ab''" by simp
  have ne: "''ab'' \<noteq> []" by simp
  from ends rab ne have e: "\<not> py_isspace (hd ''ab'') \<and> \<not> py_isspace (last ''ab'')" by blast
  from absent f rab have c: "CHR 0x09 \<notin> set ''ab''" by blast
  from parts ws rab t have "\<exists>a b. remove_filters default_inner_text_filter sample_text = a @ ''ab'' @ b
          \<and> list_all py_isspace a \<and> list_all py_isspace b"
    by auto
  with t f v ne e c show ?thesis by blast
qed

section \<open>Finding one element below an element\<close>

text \<open>
  The outcome of \<open>NthScraperElement.find_element\<close> for an accepted selector, case by case.
  A first item that is not an element (the string of a text or attribute step) passes the
  \<open>try\<close> and is refused by the constructor of the handle.
\<close>

lemma find_element_by_cases:
  assumes "smv by_mode to_search ''node()'' = Inr (lbl, xpath)"
  shows "NthScraperElement_find_element smv xp h by_mode to_search =
           (case xp (element h) xpath of
              Inl e \<Rightarrow> Inl (Exn ValueError ''Failed to find element.'')
            | Inr v \<Rightarrow>
               (case subscript0 v of
                  Inl e \<Rightarrow> Inl (Exn ValueError ''Failed to find element.'')
                | Inr (XElement n) \<Rightarrow> Inr (Handle n)
                | Inr (XText s) \<Rightarrow> Inl (Exn ValueError ''Expected an lxml.etree._Element instance.'')))"
  using assms
  by (simp add: NthScraperElement_find_element_def NthScraperElement_init_def
        split: sum.splits xitem.splits)

text \<open>
  Claim C4, as amended. For every element and every selector that the translation accepts
  and whose first match is an element, \<open>NthScraperElement.find_element\<close> returns the handle
  of that first match; it fails with the not-found error (ValueError,
  \<open>Failed to find element.\<close>) when the query has no match and when the evaluation of the
  query raises.
\<close>

theorem find_element_first_match:
  assumes "smv by_mode to_search ''node()'' = Inr (lbl, xpath)"
  shows "(xp (element h) xpath = Inr (XList (XElement n # rest))
            \<longrightarrow> NthScraperElement_find_element smv xp h by_mode to_search = Inr (Handle n))
       \<and> (xp (element h) xpath = Inr (XList [])
            \<longrightarrow> NthScraperElement_find_element smv xp h by_mode to_search
                  = Inl (Exn ValueError ''Failed to find element.''))
       \<and> (xp (element h) xpath = Inl e
            \<longrightarrow> NthScraperElement_find_element smv xp h by_mode to_search
                  = Inl (Exn ValueError ''Failed to find element.''))"
  using assms
  by (simp add: NthScraperElement_find_element_def subscript0_def NthScraperElement_init_def)

theorem find_element_first_match_witness:
  "NthScraperElement_find_element selector_mode_values xpath_stub (Handle abc_element) ByXPath ''*''
     = Inr (Handle (Element ''b'' [] (Some ''B'') [] (Some ''C'')))
   \<and> NthScraperElement_find_element selector_mode_values xpath_stub
        (Handle (Element ''b'' [] (Some ''B'') [] (Some ''C''))) ByXPath ''*''
     = Inl (Exn ValueError ''Failed to find element.'')
   \<and> NthScraperElement_find_element selector_mode_values xpath_stub (Handle abc_element) ByXPath ''//*[''
     = Inl (Exn ValueError ''Failed to find element.'')"
  using find_element_first_match [of selector_mode_values ByXPath "''*''" "''Error finding element by xpath''" "''*''"
          xpath_stub "Handle abc_element" "Element ''b'' [] (Some ''B'') [] (Some ''C'')" "[]"]
        find_element_first_match [of selector_mode_values ByXPath "''*''" "''Error finding element by xpath''" "''*''"
          xpath_stub "Handle (Element ''b'' [] (Some ''B'') [] (Some ''C''))"]
        find_element_first_match [of selector_mode_values ByXPath "''//*[''" "''Error finding element by xpath''" "''//*[''"
          xpath_stub "Handle abc_element" _ _ "Exn LibraryError ''Invalid expression''"]
  by (simp add: xpath_stub_def abc_element_def)

text \<open>
  The claim as first stated, for every selector query, fails: the query \<open>text()\<close> on the
  element for \<open>A<b>B</b>C\<close> has the text \<open>A\<close> as its first match, and \<open>find_element\<close>
  returns no handle and does not fail with the not-found error; the constructor of the
  handle, which is called after the \<open>try\<close>, refuses the match.
\<close>

theorem find_element_text_match_counterexample:
  "selector_mode_values ByXPath ''text()'' ''node()''
     = Inr (''Error finding element by xpath'', ''text()'')
   \<and> xpath_stub abc_element ''text()'' = Inr (XList [XText ''A'', XText ''C''])
   \<and> NthScraperElement_find_element selector_mode_values xpath_stub (Handle abc_element) ByXPath
        ''text()''
     = Inl (Exn ValueError ''Expected an lxml.etree._Element instance.'')"
  by (simp add: NthScraperElement_find_element_def xpath_stub_def abc_element_def opt_text_def
        subscript0_def NthScraperElement_init_def)

section \<open>Queries that fail\<close>

text \<open>
  \<open>NthScraper.find_elements\<close> binds the exception in its handler (\<open>except Exception as e\<close>):
  when the query raises on the chosen document, the call logs the error label and the
  cause and returns the empty list. Once the translation has accepted the selector, the
  call returns a list whatever the query does.
\<close>

lemma document_find_elements_bad_selector:
  assumes "smv by_mode to_search tag = Inr (err_message, xpath)"
    and "choose_doc self doc_arg = Some d" and "el_len d \<noteq> 0"
    and "xp d xpath = Inl e"
  shows "NthScraper_find_elements smv xp self by_mode to_search doc_arg tag
           = (Inr [], [LogError (err_message @ '': '' @ exn_msg e)])"
  using assms by (simp add: NthScraper_find_elements_def)

lemma document_find_elements_never_raises:
  assumes "smv by_mode to_search tag = Inr (err_message, xpath)"
  shows "\<exists>hs ev. NthScraper_find_elements smv xp self by_mode to_search doc_arg tag = (Inr hs, ev)"
  using assms
  by (simp add: NthScraper_find_elements_def split: option.splits sum.splits)

text \<open>
  Claim C1. The claim is that both \<open>find_elements\<close> operations log the error label with the
  cause and return an empty sequence when the execution of the query fails. For
  \<open>NthScraperElement.find_elements\<close> the code does otherwise: whenever the translation
  accepts the selector and the query raises, the handler itself raises NameError, nothing
  is logged and no list is returned.
\<close>

theorem element_find_elements_bad_selector_raises:
  assumes "smv by_mode to_search tag = Inr (err_message, xpath)"
    and "xp (element h) xpath = Inl e"
  shows "NthScraperElement_find_elements smv xp h by_mode to_search tag
           = (Inl (Exn NameError ''name 'e' is not defined''), [])"
  using assms by (simp add: NthScraperElement_find_elements_def)

theorem element_find_elements_bad_selector_raises_witness:
  "selector_mode_values ByXPath ''//*['' ''node()'' = Inr (''Error finding element by xpath'', ''//*['')
   \<and> xpath_stub abc_element ''//*['' = Inl (Exn LibraryError ''Invalid expression'')
   \<and> NthScraperElement_find_elements selector_mode_values xpath_stub (Handle abc_element) ByXPath
        ''//*['' ''node()'' = (Inl (Exn NameError ''name 'e' is not defined''), [])"
proof -
  have t: "selector_mode_values ByXPath ''//*['' ''node()''
             = Inr (''Error finding element by xpath'', ''//*['')"
    by simp
  have q: "xpath_stub (element (Handle abc_element)) ''//*['' = Inl (Exn LibraryError ''Invalid expression'')"
    by (simp add: xpath_stub_def)
  from element_find_elements_bad_selector_raises
         [where smv = selector_mode_values and xp = xpath_stub and h = "Handle abc_element",
          OF t q] t q
  show ?thesis by simp
qed

text \<open>
  The handler is reached in the same way when the query succeeds with an item that the
  constructor of the handle refuses.
\<close>

lemma element_find_elements_text_items_raise:
  assumes "smv by_mode to_search tag = Inr (err_message, xpath)"
    and "xp (element h) xpath = Inr (XList (XText s # rest))"
  shows "NthScraperElement_find_elements smv xp h by_mode to_search tag
           = (Inl (Exn NameError ''name 'e' is not defined''), [])"
  using assms
  by (simp add: NthScraperElement_find_elements_def wrap_found_def truthy_def iterate_def
        NthScraperElement_init_def)

section \<open>Queries on a session without a document\<close>

text \<open>
  Claim C2. On a session that holds no parsed tree, and with no alternate tree given (or
  one that Python takes as false), \<open>NthScraper.find_elements\<close> logs that the document is
  not loaded and returns the empty list, while \<open>NthScraper.find_element\<close> fails with
  ReferenceError, not with the ValueError of a search without match. The selector is one
  the translation accepts.
\<close>

theorem unloaded_session_find:
  assumes "doc self = None" and "\<not> doc_truthy doc_arg"
    and "smv by_mode to_search tag = Inr (err_message, xpath)"
  shows "NthScraper_find_elements smv xp self by_mode to_search doc_arg tag
           = (Inr [], [LogError ''Document is not loaded properly for xpath operations.''])
       \<and> NthScraper_find_element smv xp self by_mode to_search doc_arg tag
           = Inl (Exn ReferenceError ''HTML Document is not a valid lxml object'')"
  using assms
  by (simp add: NthScraper_find_elements_def NthScraper_find_element_def choose_doc_def)

theorem unloaded_session_find_witness:
  "doc NthScraper_init = None \<and> \<not> doc_truthy None
   \<and> selector_mode_values ByTag ''p'' ''node()'' = Inr (''Error finding element by tag'', ''//p'')
   \<and> NthScraper_find_elements selector_mode_values xpath_stub NthScraper_init ByTag ''p'' None ''node()''
        = (Inr [], [LogError ''Document is not loaded properly for xpath operations.''])
   \<and> NthScraper_find_element selector_mode_values xpath_stub NthScraper_init ByTag ''p'' None ''node()''
        = Inl (Exn ReferenceError ''HTML Document is not a valid lxml object'')"
proof -
  have d: "doc NthScraper_init = None" by (simp add: NthScraper_init_def)
  have a: "\<not> doc_truthy None" by (simp add: doc_truthy_def)
  have t: "selector_mode_values ByTag ''p'' ''node()'' = Inr (''Error finding element by tag'', ''//p'')"
    by simp
  from unloaded_session_find
         [where smv = selector_mode_values and xp = xpath_stub and self = NthScraper_init,
          OF d a t] d a t
  show ?thesis by simp
qed

text \<open>
  Claim C9. A session whose tree root has no children answers \<open>find_elements\<close> and
  \<open>find_element\<close> exactly as the same session without a tree does, for every selector and
  every alternate tree; with no usable alternate tree and an accepted selector that answer
  is the empty list with the not-loaded log line, and the ReferenceError.
\<close>

theorem childless_root_as_unloaded:
  assumes "doc self = Some d" and "el_children d = []"
  shows "NthScraper_find_elements smv xp self by_mode to_search doc_arg tag
           = NthScraper_find_elements smv xp (self\<lparr>doc := None\<rparr>) by_mode to_search doc_arg tag
       \<and> NthScraper_find_element smv xp self by_mode to_search doc_arg tag
           = NthScraper_find_element smv xp (self\<lparr>doc := None\<rparr>) by_mode to_search doc_arg tag
       \<and> (smv by_mode to_search tag = Inr (err_message, xpath) \<and> \<not> doc_truthy doc_arg
            \<longrightarrow> NthScraper_find_elements smv xp self by_mode to_search doc_arg tag
                   = (Inr [], [LogError ''Document is not loaded properly for xpath operations.''])
                \<and> NthScraper_find_element smv xp self by_mode to_search doc_arg tag
                   = Inl (Exn ReferenceError ''HTML Document is not a valid lxml object''))"
  using assms
  by (auto simp: NthScraper_find_elements_def NthScraper_find_element_def choose_doc_def
        el_len_def doc_truthy_def split: option.splits sum.splits)

theorem childless_root_as_unloaded_witness:
  "doc (NthScraper_init\<lparr>doc := Some (Element ''p'' [] (Some ''Hi'') [] None)\<rparr>)
     = Some (Element ''p'' [] (Some ''Hi'') [] None)
   \<and> el_children (Element ''p'' [] (Some ''Hi'') [] None) = []
   \<and> selector_mode_values ByXPath ''.'' ''node()'' = Inr (''Error finding element by xpath'', ''.'')
   \<and> \<not> doc_truthy None
   \<and> NthScraper_find_elements selector_mode_values xpath_stub
        (NthScraper_init\<lparr>doc := Some (Element ''p'' [] (Some ''Hi'') [] None)\<rparr>)
        ByXPath ''.'' None ''node()''
      = (Inr [], [LogError ''Document is not loaded properly for xpath operations.''])
   \<and> NthScraper_find_element selector_mode_values xpath_stub
        (NthScraper_init\<lparr>doc := Some (Element ''p'' [] (Some ''Hi'') [] None)\<rparr>)
        ByXPath ''.'' None ''node()''
      = Inl (Exn ReferenceError ''HTML Document is not a valid lxml object'')"
proof -
  have d: "doc (NthScraper_init\<lparr>doc := Some (Element ''p'' [] (Some ''Hi'') [] None)\<rparr>)
             = Some (Element ''p'' [] (Some ''Hi'') [] None)"
    by simp
  have c: "el_children (Element ''p'' [] (Some ''Hi'') [] None) = []" by simp
  have t: "selector_mode_values ByXPath ''.'' ''node()'' = Inr (''Error finding element by xpath'', ''.'')"
    by simp
  have a: "\<not> doc_truthy None" by (simp add: doc_truthy_def)
  from childless_root_as_unloaded
         [where smv = selector_mode_values and xp = xpath_stub and by_mode = ByXPath
            and to_search = "''.''" and tag = "''node()''" and doc_arg = None
            and err_message = "''Error finding element by xpath''" and xpath = "''.''",
          OF d c] d c t a
  show ?thesis by blast
qed

section \<open>Fetching\<close>

text \<open>Two fetches evaluated: a body that is parsed, and an empty body.\<close>

lemma get_response_hi:
  "get_response send_ok (time_sleep sleep_limit) headers_update fromstring_stub 3 2 NthScraper_init
       ''http://example.org/'' None False no_kwargs
     = (Inr (ok_response ''Hi''),
        \<lparr>requests_wrapper = \<lparr>web_hit_count = Some 1\<rparr>,
         doc = Some (Element ''p'' [] (Some ''Hi'') [] None),
         response = Some (ok_response ''Hi'')\<rparr>,
        [Slept 3])"
  by (simp add: get_response_def RequestsWrapper_get_def request_def pop_sleep_seconds_def
        merge_headers_def dict_update_def time_sleep_def py_float_def sleep_limit_def
        raise_for_status_def send_ok_def ok_response_def no_kwargs_def
        NthScraper_init_def RequestsWrapper_init_def get_hit_count_def class_web_hit_count_def
        fromstring_stub_def py_isspace_def Let_def)

lemma get_response_empty:
  "get_response send_empty (time_sleep sleep_limit) headers_update fromstring_stub 3 2
       (NthScraper_init\<lparr>doc := Some abc_element\<rparr>) ''http://example.org/'' (Some 0) True no_kwargs
     = (Inr (ok_response []),
        \<lparr>requests_wrapper = \<lparr>web_hit_count = Some 1\<rparr>,
         doc = None,
         response = Some (ok_response [])\<rparr>,
        [Slept 0])"
  by (simp add: get_response_def RequestsWrapper_post_def request_def pop_sleep_seconds_def
        merge_headers_def dict_update_def time_sleep_def py_float_def sleep_limit_def
        raise_for_status_def send_empty_def ok_response_def no_kwargs_def
        NthScraper_init_def RequestsWrapper_init_def get_hit_count_def class_web_hit_count_def
        Let_def)

text \<open>
  Claim C3. After every fetch that returns a response, the session stores that response,
  and its tree root is the parse of the response's body when the body is not empty and
  none when it is empty. Nothing of the response and the tree stored before remains: the
  same fetch from a session that differs only in them ends in the same session.
\<close>

theorem get_response_replaces_state:
  assumes "get_response send sleep update fromstring randint randrange self url sleep_seconds
             is_post kw = (Inr resp, self', ev)"
  shows "response self' = Some resp
       \<and> (content resp \<noteq> [] \<longrightarrow> (\<exists>d. fromstring (content resp) = Inr d \<and> doc self' = Some d))
       \<and> (content resp = [] \<longrightarrow> doc self' = None)
       \<and> get_response send sleep update fromstring randint randrange
            (self\<lparr>doc := d0, response := r0\<rparr>) url sleep_seconds is_post kw
          = (Inr resp, self', ev)"
  using assms
  by (auto simp: get_response_def Let_def split: sum.splits if_splits)

theorem get_response_replaces_state_witness:
  "get_response send_ok (time_sleep sleep_limit) headers_update fromstring_stub 3 2 NthScraper_init
       ''http://example.org/'' None False no_kwargs
     = (Inr (ok_response ''Hi''),
        \<lparr>requests_wrapper = \<lparr>web_hit_count = Some 1\<rparr>,
         doc = Some (Element ''p'' [] (Some ''Hi'') [] None),
         response = Some (ok_response ''Hi'')\<rparr>,
        [Slept 3])
   \<and> content (ok_response ''Hi'') \<noteq> []
   \<and> fromstring_stub (content (ok_response ''Hi'')) = Inr (Element ''p'' [] (Some ''Hi'') [] None)
   \<and> get_response send_ok (time_sleep sleep_limit) headers_update fromstring_stub 3 2
        (NthScraper_init\<lparr>doc := Some abc_element, response := Some not_found_response\<rparr>)
        ''http://example.org/'' None False no_kwargs
     = (Inr (ok_response ''Hi''),
        \<lparr>requests_wrapper = \<lparr>web_hit_count = Some 1\<rparr>,
         doc = Some (Element ''p'' [] (Some ''Hi'') [] None),
         response = Some (ok_response ''Hi'')\<rparr>,
        [Slept 3])
   \<and> get_response send_empty (time_sleep sleep_limit) headers_update fromstring_stub 3 2
       (NthScraper_init\<lparr>doc := Some abc_element\<rparr>) ''http://example.org/'' (Some 0) True no_kwargs
     = (Inr (ok_response []),
        \<lparr>requests_wrapper = \<lparr>web_hit_count = Some 1\<rparr>,
         doc = None,
         response = Some (ok_response [])\<rparr>,
        [Slept 0])
   \<and> content (ok_response []) = []"
proof -
  have c: "content (ok_response ''Hi'') \<noteq> []" "content (ok_response []) = []"
    by (simp_all add: ok_response_def)
  have p: "fromstring_stub (content (ok_response ''Hi'')) = Inr (Element ''p'' [] (Some ''Hi'') [] None)"
    by (simp add: ok_response_def fromstring_stub_def py_isspace_def)
  from get_response_replaces_state [OF get_response_hi,
         where ?d0.0 = "Some abc_element" and ?r0.0 = "Some not_found_response"]
       get_response_replaces_state [OF get_response_empty]
       get_response_hi get_response_empty c p
  show ?thesis by simp
qed

section \<open>Loading a local file\<close>

text \<open>
  When \<open>get_from_local\<close> returns a response, that response is closed and is the one the
  session stores. The session object that the call creates is closed on no path.
\<close>

lemma get_from_local_success_closes:
  assumes "get_from_local adapter fromstring self file_path = (Inr r, self', ev)"
  shows "closed r \<and> response self' = Some r \<and> ResponseClosed \<in> set ev"
  using assms
  by (auto simp: get_from_local_def Let_def split: sum.splits if_splits)

lemma get_from_local_session_stays_open:
  "SessionClosed \<notin> set (snd (snd (get_from_local adapter fromstring self file_path)))"
  by (simp add: get_from_local_def Let_def split: sum.splits)

text \<open>
  Claim C8. The claim is that the transport resource of \<open>get_from_local\<close> is closed after
  the body is consumed on every path, whether the call succeeds or fails. The code closes
  the response as its last statement, without a \<open>finally\<close>: when the adapter delivers a
  non-empty body that the parser refuses, the call ends with the parser's exception, the
  response is stored unclosed and nothing has been closed.
\<close>

theorem get_from_local_parse_failure_leaves_open:
  assumes "adapter (''file://'' @ file_path) = Inr resp"
    and "content resp \<noteq> []"
    and "fromstring (content resp) = Inl e"
  shows "get_from_local adapter fromstring self file_path
           = (Inl e, self\<lparr>response := Some resp\<rparr>,
              [SessionOpened, LogInfo (''Scraping data from: '' @ file_path)])
       \<and> ResponseClosed \<notin> set (snd (snd (get_from_local adapter fromstring self file_path)))
       \<and> SessionClosed \<notin> set (snd (snd (get_from_local adapter fromstring self file_path)))"
  using assms by (simp add: get_from_local_def Let_def)

theorem get_from_local_parse_failure_leaves_open_witness:
  "adapter_blank (''file://'' @ ''/tmp/blank.html'') = Inr (ok_response '' '')
   \<and> content (ok_response '' '') \<noteq> []
   \<and> fromstring_stub (content (ok_response '' '')) = Inl (Exn LibraryError ''Document is empty'')
   \<and> get_from_local adapter_blank fromstring_stub NthScraper_init ''/tmp/blank.html''
       = (Inl (Exn LibraryError ''Document is empty''),
          NthScraper_init\<lparr>response := Some (ok_response '' '')\<rparr>,
          [SessionOpened, LogInfo ''Scraping data from: /tmp/blank.html''])
   \<and> \<not> closed (ok_response '' '')"
proof -
  have a: "adapter_blank (''file://'' @ ''/tmp/blank.html'') = Inr (ok_response '' '')"
    by (simp add: adapter_blank_def)
  have c: "content (ok_response '' '') \<noteq> []" by (simp add: ok_response_def)
  have p: "fromstring_stub (content (ok_response '' '')) = Inl (Exn LibraryError ''Document is empty'')"
    by (simp add: ok_response_def fromstring_stub_def py_isspace_def)
  have o: "\<not> closed (ok_response '' '')" by (simp add: ok_response_def)
  from get_from_local_parse_failure_leaves_open
         [where adapter = adapter_blank and fromstring = fromstring_stub
            and file_path = "''/tmp/blank.html''" and self = NthScraper_init,
          OF a c p] a c p o
  show ?thesis by simp
qed

section \<open>The web hit counter\<close>

text \<open>
  A call that reaches the counter adds one to it, whatever the transport answers. A call
  whose delay or whose headers the library refuses ends before the counter and leaves the
  wrapper as it was. So a run of calls counts the calls that reach the counter.
\<close>

lemma request_reaching_counts:
  assumes "reaches_increment sleep update c"
  shows "get_hit_count (fst (snd (run_call sleep update self c))) = get_hit_count self + 1"
  using assms
  by (auto simp: reaches_increment_def run_call_def request_def get_hit_count_def Let_def
        split: sum.splits)

lemma request_not_reaching_unchanged:
  assumes "\<not> reaches_increment sleep update c"
  shows "fst (snd (run_call sleep update self c)) = self
       \<and> isl (fst (run_call sleep update self c))"
  using assms
  by (auto simp: reaches_increment_def run_call_def request_def Let_def split: sum.splits)

lemma run_calls_count:
  "get_hit_count (run_calls sleep update self cs)
     = get_hit_count self + int (length (filter (reaches_increment sleep update) cs))"
proof (induction cs arbitrary: self)
  case Nil
  then show ?case by simp
next
  case (Cons c cs)
  show ?case
  proof (cases "reaches_increment sleep update c")
    case True
    from request_reaching_counts [OF True, of self] True Cons.IH show ?thesis by simp
  next
    case False
    from request_not_reaching_unchanged [OF False, of self] False Cons.IH show ?thesis by simp
  qed
qed

lemma fresh_hit_count: "get_hit_count RequestsWrapper_init = 0"
  by (simp add: RequestsWrapper_init_def get_hit_count_def class_web_hit_count_def)

text \<open>The sample calls: which of them reach the counter, and one of them run.\<close>

lemma sample_calls_reach:
  "reaches_increment (time_sleep sleep_limit) headers_update call_ok"
  "reaches_increment (time_sleep sleep_limit) headers_update call_not_found"
  by (simp_all add: reaches_increment_def call_ok_def call_not_found_def pop_sleep_seconds_def
        merge_headers_def no_kwargs_def time_sleep_def py_float_def sleep_limit_def)

lemma sample_calls_stop:
  "\<not> reaches_increment (time_sleep sleep_limit) headers_update call_negative_sleep"
  "\<not> reaches_increment (time_sleep sleep_limit) headers_update call_long_sleep"
  "\<not> reaches_increment (time_sleep sleep_limit) headers_update call_none_headers"
  by (simp_all add: reaches_increment_def call_negative_sleep_def call_long_sleep_def
        call_none_headers_def pop_sleep_seconds_def merge_headers_def no_kwargs_def
        time_sleep_def py_float_def sleep_limit_def headers_update_def)

lemma run_call_not_found:
  "run_call (time_sleep sleep_limit) headers_update RequestsWrapper_init call_not_found
     = (Inl (Exn LibraryError ''HTTPError''), \<lparr>web_hit_count = Some 1\<rparr>, [Slept 3])"
  by (simp add: run_call_def call_not_found_def request_def pop_sleep_seconds_def no_kwargs_def
        merge_headers_def dict_update_def time_sleep_def py_float_def sleep_limit_def
        send_not_found_def not_found_response_def raise_for_status_def RequestsWrapper_init_def
        get_hit_count_def class_web_hit_count_def Let_def)

text \<open>
  Claim C10, as amended. Every call of \<open>RequestsWrapper.request\<close> that reaches the
  increment (neither the delay nor the merge of the headers raises) adds exactly one to the
  web hit counter before the request is sent, whether the request then succeeds, raises or
  is answered with an error status; a call that does not reach it leaves the counter as it
  was. So on a fresh wrapper \<open>get_hit_count()\<close> after any calls is the number of those that
  reached the increment, and it is n after n calls that all reached it.
\<close>

theorem hit_count_counts_reaching_calls:
  "(reaches_increment sleep update c
      \<longrightarrow> get_hit_count (fst (snd (run_call sleep update self c))) = get_hit_count self + 1)
   \<and> (\<not> reaches_increment sleep update c
      \<longrightarrow> fst (snd (run_call sleep update self c)) = self)
   \<and> get_hit_count (run_calls sleep update RequestsWrapper_init cs)
       = int (length (filter (reaches_increment sleep update) cs))
   \<and> ((\<forall>c \<in> set cs. reaches_increment sleep update c)
      \<longrightarrow> get_hit_count (run_calls sleep update RequestsWrapper_init cs) = int (length cs))"
proof -
  have count: "get_hit_count (run_calls sleep update RequestsWrapper_init cs)
       = int (length (filter (reaches_increment sleep update) cs))"
    using run_calls_count [of sleep update RequestsWrapper_init cs] by (simp add: fresh_hit_count)
  have "get_hit_count (run_calls sleep update RequestsWrapper_init cs) = int (length cs)"
    if "\<forall>c \<in> set cs. reaches_increment sleep update c"
  proof -
    from that have "filter (reaches_increment sleep update) cs = cs" by (simp add: filter_id_conv)
    with count show ?thesis by simp
  qed
  with count request_reaching_counts request_not_reaching_unchanged show ?thesis by blast
qed

theorem hit_count_counts_reaching_calls_witness:
  "reaches_increment (time_sleep sleep_limit) headers_update call_not_found
   \<and> run_call (time_sleep sleep_limit) headers_update RequestsWrapper_init call_not_found
       = (Inl (Exn LibraryError ''HTTPError''), \<lparr>web_hit_count = Some 1\<rparr>, [Slept 3])
   \<and> get_hit_count (fst (snd (run_call (time_sleep sleep_limit) headers_update
        RequestsWrapper_init call_not_found))) = 1
   \<and> \<not> reaches_increment (time_sleep sleep_limit) headers_update call_none_headers
   \<and> fst (snd (run_call (time_sleep sleep_limit) headers_update RequestsWrapper_init
        call_none_headers)) = RequestsWrapper_init
   \<and> reaches_increment (time_sleep sleep_limit) headers_update call_ok
   \<and> get_hit_count (run_calls (time_sleep sleep_limit) headers_update RequestsWrapper_init
        [call_ok, call_not_found]) = 2
   \<and> get_hit_count (run_calls (time_sleep sleep_limit) headers_update RequestsWrapper_init
        [call_ok, call_negative_sleep, call_long_sleep, call_none_headers, call_not_found]) = 2"
proof -
  have all: "\<forall>c \<in> set [call_ok, call_not_found].
      reaches_increment (time_sleep sleep_limit) headers_update c"
    by (simp add: sample_calls_reach)
  from hit_count_counts_reaching_calls
         [of "time_sleep sleep_limit" headers_update call_not_found RequestsWrapper_init
             "[call_ok, call_not_found]"]
       hit_count_counts_reaching_calls
         [of "time_sleep sleep_limit" headers_update call_none_headers RequestsWrapper_init
             "[call_ok, call_negative_sleep, call_long_sleep, call_none_headers, call_not_found]"]
       all sample_calls_reach sample_calls_stop run_call_not_found fresh_hit_count
  show ?thesis by simp
qed

text \<open>
  The claim as first stated, for every call, fails: a call with \<open>sleep_seconds = -1\<close>
  raises ValueError in \<open>time.sleep\<close> before the counter is touched, so after this one call
  on a fresh wrapper the counter is 0, and a run of three calls with one such call among
  them counts 2.
\<close>

theorem hit_count_negative_sleep_counterexample:
  "request send_ok (time_sleep sleep_limit) headers_update 1 RequestsWrapper_init ''GET''
       ''http://example.org/'' (no_kwargs\<lparr>kw_sleep_seconds := Some (- 1)\<rparr>)
     = (Inl (Exn ValueError ''sleep length must be non-negative''), RequestsWrapper_init, [])
   \<and> get_hit_count (run_calls (time_sleep sleep_limit) headers_update RequestsWrapper_init
        [call_negative_sleep])
       \<noteq> int (length [call_negative_sleep])
   \<and> get_hit_count (run_calls (time_sleep sleep_limit) headers_update RequestsWrapper_init
        [call_ok, call_negative_sleep, call_not_found]) = 2"
  by (simp add: run_call_def request_def pop_sleep_seconds_def no_kwargs_def time_sleep_def
        py_float_def sleep_limit_def merge_headers_def dict_update_def
        call_negative_sleep_def call_ok_def call_not_found_def send_ok_def send_not_found_def
        ok_response_def not_found_response_def raise_for_status_def
        RequestsWrapper_init_def get_hit_count_def class_web_hit_count_def Let_def)

text \<open>
  A delay beyond the bound of the time type and headers given as \<open>None\<close> end the call
  before the counter in the same way.
\<close>

lemma calls_stopped_before_counter:
  "run_call (time_sleep sleep_limit) headers_update RequestsWrapper_init call_long_sleep
     = (Inl (Exn OverflowError ''timestamp too large to convert to C _PyTime_t''),
        RequestsWrapper_init, [])"
  "run_call (time_sleep sleep_limit) headers_update RequestsWrapper_init call_none_headers
     = (Inl (Exn TypeError '''NoneType' object is not iterable''), RequestsWrapper_init, [Slept 0])"
  by (simp_all add: run_call_def request_def pop_sleep_seconds_def no_kwargs_def time_sleep_def
        py_float_def sleep_limit_def merge_headers_def headers_update_def
        call_long_sleep_def call_none_headers_def)

end
